theory Spec2Isabelle
  imports Main
begin

section \<open>The Python builtins the program relies on\<close>

text \<open>
  The program is one Python module, \<^verbatim>\<open>discord_stocks.py\<close>, with three functions:
  \<^verbatim>\<open>parse_query\<close>, \<^verbatim>\<open>request_data\<close> and \<^verbatim>\<open>create_chart\<close>, run once in sequence at
  the bottom of the module.

  Python strings are modelled as \<^typ>\<open>string\<close>. The builtins below are exact on ASCII
  text (code points below 128). A character above 127 stands for a code point that is
  neither whitespace, nor a decimal digit, nor a cased letter; the Unicode whitespace,
  digits and case mappings outside ASCII are not modelled. Exceptions are values of
  the type \<open>error\<close>, and a function that may raise returns \<open>error + 'a\<close>.
\<close>

datatype error =
    TypeError string
  | IndexError
  | ValueError
  | Exception string
  | LibraryError string

text \<open>Sequencing of a computation that may raise: the first exception ends it.\<close>

definition bind :: "error + 'a \<Rightarrow> ('a \<Rightarrow> error + 'b) \<Rightarrow> error + 'b" where
  "bind m f = (case m of Inl e \<Rightarrow> Inl e | Inr x \<Rightarrow> f x)"

text \<open>\<^verbatim>\<open>xs[i]\<close> for a non-negative index: IndexError out of range.\<close>

definition getitem :: "'a list \<Rightarrow> nat \<Rightarrow> error + 'a" where
  "getitem xs i = (if i < length xs then Inr (xs ! i) else Inl IndexError)"

text \<open>
  \<^verbatim>\<open>str.strip()\<close> removes leading and trailing whitespace. The ASCII characters that
  \<^verbatim>\<open>str.isspace\<close> accepts are 9 to 13 and 28 to 32.
\<close>

definition is_space :: "char \<Rightarrow> bool" where
  "is_space c = (let n = (of_char c :: nat) in (9 \<le> n \<and> n \<le> 13) \<or> (28 \<le> n \<and> n \<le> 32))"

definition strip :: "string \<Rightarrow> string" where
  "strip s = rev (dropWhile is_space (rev (dropWhile is_space s)))"

text \<open>
  \<^verbatim>\<open>s.split(sep)\<close> with an explicit one-character separator: every occurrence of the
  separator ends a token, so the result is never empty and adjacent separators give
  empty tokens.
\<close>

fun split_on :: "char \<Rightarrow> string \<Rightarrow> string list" where
  "split_on sep [] = [[]]"
| "split_on sep (c # cs) =
     (if c = sep then [] # split_on sep cs
      else (case split_on sep cs of [] \<Rightarrow> [[c]] | t # ts \<Rightarrow> (c # t) # ts))"

text \<open>\<^verbatim>\<open>str.upper()\<close>: on ASCII, the letters a to z move to A to Z.\<close>

definition upper_char :: "char \<Rightarrow> char" where
  "upper_char c =
     (let n = (of_char c :: nat) in if 97 \<le> n \<and> n \<le> 122 then char_of (n - 32) else c)"

definition upper :: "string \<Rightarrow> string" where
  "upper s = map upper_char s"

text \<open>
  \<^verbatim>\<open>int(s)\<close> for a string, base 10: optional whitespace (characters 9 to 13 and 32),
  an optional sign, decimal digits in which single underscores may separate digits,
  optional whitespace, and nothing else. Leading zeros are allowed. The result is
  \<open>None\<close> where Python raises ValueError. The interpreter's optional limit on the
  number of digits is not modelled.
\<close>

definition is_int_space :: "char \<Rightarrow> bool" where
  "is_int_space c = (let n = (of_char c :: nat) in (9 \<le> n \<and> n \<le> 13) \<or> n = 32)"

definition is_digit :: "char \<Rightarrow> bool" where
  "is_digit c = (let n = (of_char c :: nat) in 48 \<le> n \<and> n \<le> 57)"

definition digit_val :: "char \<Rightarrow> int" where
  "digit_val c = int (of_char c) - 48"

text \<open>
  The digit scan: \<open>us\<close> tells whether the previous character was an underscore. It
  stops at the first character that is neither a digit nor an underscore and returns
  the value read and the rest; two underscores in a row or an underscore at the end of
  the digits are errors.
\<close>

fun scan_digits :: "bool \<Rightarrow> int \<Rightarrow> string \<Rightarrow> (int \<times> string) option" where
  "scan_digits us acc [] = (if us then None else Some (acc, []))"
| "scan_digits us acc (c # cs) =
     (if is_digit c then scan_digits False (10 * acc + digit_val c) cs
      else if c = CHR ''_'' then (if us then None else scan_digits True acc cs)
      else if us then None else Some (acc, c # cs))"

definition split_sign :: "string \<Rightarrow> int \<times> string" where
  "split_sign s =
     (case s of
        [] \<Rightarrow> (1, [])
      | c # cs \<Rightarrow> if c = CHR ''+'' then (1, cs) else if c = CHR ''-'' then (- 1, cs) else (1, s))"

definition py_int :: "string \<Rightarrow> int option" where
  "py_int s =
     (let (sign, body) = split_sign (dropWhile is_int_space s) in
      case body of
        [] \<Rightarrow> None
      | c # _ \<Rightarrow>
          if is_digit c then
            (case scan_digits False 0 body of
               None \<Rightarrow> None
             | Some (v, rest) \<Rightarrow>
                 if dropWhile is_int_space rest = [] then Some (sign * v) else None)
          else None)"

section \<open>The command parser\<close>

text \<open>
  \<^verbatim>\<open>parse_query\<close> returns a dictionary with exactly the keys \<^verbatim>\<open>ticker\<close>, \<^verbatim>\<open>range\<close>,
  \<^verbatim>\<open>interval\<close>, \<^verbatim>\<open>type\<close> and \<^verbatim>\<open>mav\<close>; it is modelled as a record. The fields
  \<open>range_tok\<close> and \<open>type_tok\<close> are the keys \<^verbatim>\<open>range\<close> and \<^verbatim>\<open>type\<close>.
\<close>

record tokens =
  ticker :: string
  range_tok :: string
  interval :: string
  type_tok :: string
  mav :: "int list"

definition valid_ranges :: "string list" where
  "valid_ranges =
     [''1d'', ''5d'', ''1mo'', ''3mo'', ''6mo'', ''1y'', ''2y'', ''5y'', ''10y'', ''ytd'', ''max'']"

definition valid_intervals :: "string list" where
  "valid_intervals =
     [''1m'', ''2m'', ''5m'', ''15m'', ''30m'', ''60m'', ''90m'', ''1h'', ''1d'', ''5d'', ''1wk'',
      ''1mo'', ''3mo'']"

definition valid_types :: "string list" where
  "valid_types = [''candle'', ''line'']"

text \<open>
  \<^verbatim>\<open>str(xs)\<close> for a list of strings that contain no quote, backslash or control
  character, which is the case for the three lists above: the items in single quotes,
  separated by a comma and a space, in square brackets.
\<close>

fun join :: "string \<Rightarrow> string list \<Rightarrow> string" where
  "join sep [] = []"
| "join sep [x] = x"
| "join sep (x # y # ys) = x @ sep @ join sep (y # ys)"

definition str_list :: "string list \<Rightarrow> string" where
  "str_list xs = ''['' @ join '', '' (map (\<lambda>x. [CHR 0x27] @ x @ [CHR 0x27]) xs) @ '']''"

definition usage :: string where
  "usage =
     ''Usage: &stock <ticker> <range> <interval> <type> <moving average values>. '' @ [CHR 0x0A] @
     ''    E.g. &stock AAPL 1y 1d candle 2 3 5 creates a candlestick chart of AAPL for the last year at a daily '' @ [CHR 0x0A] @
     ''    interval with 2, 3, and 5 day moving averages.''"

definition ranges_msg :: string where
  "ranges_msg = ''The valid ranges are: '' @ str_list valid_ranges"

definition intervals_msg :: string where
  "intervals_msg = ''The valid intervals are: '' @ str_list valid_intervals"

definition types_msg :: string where
  "types_msg = ''The valid types are: '' @ str_list valid_types"

definition mav_msg :: string where
  "mav_msg = ''Invalid moving average values, try again with integers.''"

text \<open>\<^verbatim>\<open>query_str.strip().split(' ')\<close>\<close>

definition query_tokens :: "string \<Rightarrow> string list" where
  "query_tokens query_str = split_on (CHR '' '') (strip query_str)"

text \<open>
  The loop over \<^verbatim>\<open>mav\<close>: \<^verbatim>\<open>int(value)\<close> is tried on each token in turn, and any
  exception is replaced by the TypeError.
\<close>

fun check_mav :: "string list \<Rightarrow> error + unit" where
  "check_mav [] = Inr ()"
| "check_mav (v # vs) =
     (case py_int v of None \<Rightarrow> Inl (TypeError mav_msg) | Some _ \<Rightarrow> check_mav vs)"

text \<open>
  \<^verbatim>\<open>tuple(int(x) for x in query_tokens[5:])\<close> in the returned dictionary: here a
  failing \<^verbatim>\<open>int\<close> would raise its own ValueError.
\<close>

fun int_tuple :: "string list \<Rightarrow> error + int list" where
  "int_tuple [] = Inr []"
| "int_tuple (x # xs) =
     (case py_int x of
        None \<Rightarrow> Inl ValueError
      | Some n \<Rightarrow> bind (int_tuple xs) (\<lambda>ns. Inr (n # ns)))"

definition parse_query :: "string \<Rightarrow> error + tokens" where
  "parse_query query_str =
     (let toks = query_tokens query_str in
      bind (getitem toks 0) (\<lambda>t0.
      if t0 \<noteq> ''&stock'' then Inl (TypeError usage) else
      bind (getitem toks 2) (\<lambda>t2.
      if t2 \<notin> set valid_ranges then Inl (TypeError ranges_msg) else
      bind (getitem toks 3) (\<lambda>t3.
      if t3 \<notin> set valid_intervals then Inl (TypeError intervals_msg) else
      bind (getitem toks 4) (\<lambda>t4.
      if t4 \<notin> set valid_types then Inl (TypeError types_msg) else
      bind (check_mav (drop 5 toks)) (\<lambda>_.
      bind (getitem toks 1) (\<lambda>t1.
      bind (int_tuple (drop 5 toks)) (\<lambda>ms.
      Inr \<lparr>ticker = upper t1, range_tok = t2, interval = t3, type_tok = t4, mav = ms\<rparr>))))))))"

section \<open>The data fetcher\<close>

text \<open>
  \<^verbatim>\<open>request_data\<close> and \<^verbatim>\<open>create_chart\<close> call three libraries: \<^verbatim>\<open>requests.get\<close>,
  \<^verbatim>\<open>pandas.read_csv\<close> and \<^verbatim>\<open>mplfinance.plot\<close>. What they return is not part of the
  program, so the model takes them as parameters, the fields of a record \<open>world\<close>:
  \<^item> \<open>http_get url params\<close> is the response of the GET, or the exception it raises;
  \<^item> \<open>read_csv body\<close> is the data frame parsed from the body, or the exception;
  \<^item> \<open>plot data type mav\<close> is, for each line object of the first axes
    (\<^verbatim>\<open>axes[0].lines\<close>), the sequence of its y values, or the exception;
  \<^item> \<open>fmt2f y\<close> is the text of \<^verbatim>\<open>f"{y:.2f}"\<close>; floating point is not modelled.
  The type \<open>'df\<close> is the data frame and \<open>'y\<close> the number type of the y values. An
  exception raised inside a library reaches the caller unchanged
  (\<^verbatim>\<open>except Exception: raise\<close>).

  Each function returns, next to its result, the trace of the calls it made to the
  outside, in order.
\<close>

record response =
  status_code :: int
  resp_text :: string

record label =
  label_row :: nat
  label_text :: string
  label_color :: string

datatype event =
    HttpGet string "(string \<times> string) list"
  | ReadCsv string
  | Plot string "int list"
  | SetTitle string
  | AxText label
  | SaveFig string
  | Print string

record ('df, 'y) world =
  http_get :: "string \<Rightarrow> (string \<times> string) list \<Rightarrow> error + response"
  read_csv :: "string \<Rightarrow> error + 'df"
  plot :: "'df \<Rightarrow> string \<Rightarrow> int list \<Rightarrow> error + 'y list list"
  fmt2f :: "'y \<Rightarrow> string"

text \<open>\<^verbatim>\<open>stock_url.format(tokens['ticker'])\<close>\<close>

definition stock_url :: "string \<Rightarrow> string" where
  "stock_url tk = ''https://query1.finance.yahoo.com/v7/finance/download/'' @ tk @ ''?''"

definition request_params :: "tokens \<Rightarrow> (string \<times> string) list" where
  "request_params tks =
     [(''range'', range_tok tks), (''interval'', interval tks), (''events'', ''history'')]"

definition error_404 :: error where
  "error_404 = Exception ''Error 404; please try again with another ticker/range/interval.''"

definition request_data :: "('df, 'y) world \<Rightarrow> tokens \<Rightarrow> event list \<times> (error + 'df)" where
  "request_data w tks =
     (let params = request_params tks;
          url = stock_url (ticker tks) in
      case http_get w url params of
        Inl e \<Rightarrow> ([HttpGet url params], Inl e)
      | Inr resp \<Rightarrow>
          if status_code resp = 404 then ([HttpGet url params], Inl error_404)
          else ([HttpGet url params, ReadCsv (resp_text resp)], read_csv w (resp_text resp)))"

section \<open>The chart renderer\<close>

definition mavcolors :: "string list" where
  "mavcolors = [''#5662f6'', ''#FFEB00'', ''#FF7A00'', ''#AEF35A'', ''#028910'']"

text \<open>\<^verbatim>\<open>str(n)\<close> for an integer, as the f-string \<^verbatim>\<open>f"MA{n}"\<close> formats it.\<close>

fun str_nat :: "nat \<Rightarrow> string" where
  "str_nat n =
     (if n < 10 then [char_of (48 + n)] else str_nat (n div 10) @ [char_of (48 + n mod 10)])"

declare str_nat.simps [simp del]

definition str_int :: "int \<Rightarrow> string" where
  "str_int i = (if i < 0 then CHR ''-'' # str_nat (nat (- i)) else str_nat (nat i))"

text \<open>\<^verbatim>\<open>ys[-1]\<close>: the last item, IndexError on an empty sequence.\<close>

definition last_item :: "'a list \<Rightarrow> error + 'a" where
  "last_item ys = (if ys = [] then Inl IndexError else Inr (last ys))"

text \<open>
  The body of \<^verbatim>\<open>for i, _line in enumerate(ax.lines)\<close>, over the indices still to
  visit. It returns the labels placed with \<^verbatim>\<open>ax.text\<close> and whether the loop ended
  or raised. A label is placed at the axes coordinates \<^verbatim>\<open>(0.02, 0.94-0.04*i)\<close>; the
  model keeps the index \<open>i\<close> as \<open>label_row\<close>.
\<close>

fun label_loop ::
  "('y \<Rightarrow> string) \<Rightarrow> tokens \<Rightarrow> 'y list list \<Rightarrow> nat list \<Rightarrow> label list \<times> (error + unit)" where
  "label_loop fmt tks lines [] = ([], Inr ())"
| "label_loop fmt tks lines (i # rest) =
     (if type_tok tks = ''line'' \<and> i = length lines - 1 then label_loop fmt tks lines rest
      else
        (case getitem (mav tks) i of
           Inl e \<Rightarrow> ([], Inl e)
         | Inr m \<Rightarrow>
             (case bind (getitem lines i) last_item of
                Inl e \<Rightarrow> ([], Inl e)
              | Inr y \<Rightarrow>
                  (let MA_string = ''MA'' @ str_int m @ '': '' @ fmt y;
                       l = \<lparr>label_row = i, label_text = MA_string,
                            label_color = mavcolors ! (i mod length mavcolors)\<rparr>;
                       (ls, r) = label_loop fmt tks lines rest
                   in (l # ls, r)))))"

text \<open>The guarded loop, \<^verbatim>\<open>if tokens['mav']: for ...\<close>.\<close>

definition ma_labels ::
  "('y \<Rightarrow> string) \<Rightarrow> tokens \<Rightarrow> 'y list list \<Rightarrow> label list \<times> (error + unit)" where
  "ma_labels fmt tks lines =
     (if mav tks \<noteq> [] then label_loop fmt tks lines [0..<length lines] else ([], Inr ()))"

definition chart_title :: "tokens \<Rightarrow> string" where
  "chart_title tks =
     ticker tks @ '' ('' @ range_tok tks @ '' Range, '' @ interval tks @ '' Interval)''"

definition create_chart ::
  "('df, 'y) world \<Rightarrow> 'df \<Rightarrow> tokens \<Rightarrow> event list \<times> (error + unit)" where
  "create_chart w data tks =
     (case plot w data (type_tok tks) (mav tks) of
        Inl e \<Rightarrow> ([Plot (type_tok tks) (mav tks)], Inl e)
      | Inr lines \<Rightarrow>
          (let (ls, r) = ma_labels (fmt2f w) tks lines;
               evs = [Plot (type_tok tks) (mav tks), SetTitle (chart_title tks)] @ map AxText ls
           in case r of
                Inl e \<Rightarrow> (evs, Inl e)
              | Inr _ \<Rightarrow> (evs @ [SaveFig ''stock.png'', Print ''Complete''], Inr ())))"

section \<open>The module body\<close>

text \<open>
  The three calls at the bottom of the module, with the command string as a parameter:
  an exception of one step ends the run, so the later steps are not reached.
\<close>

definition input_str :: string where
  "input_str = ''&stock SPY 2y 1wk candle 5 10 20''"

definition script :: "('df, 'y) world \<Rightarrow> string \<Rightarrow> event list \<times> (error + unit)" where
  "script w query_str =
     (case parse_query query_str of
        Inl e \<Rightarrow> ([], Inl e)
      | Inr tks \<Rightarrow>
          (case request_data w tks of
             (ev1, Inl e) \<Rightarrow> (ev1, Inl e)
           | (ev1, Inr data) \<Rightarrow>
               (let (ev2, r) = create_chart w data tks in (ev1 @ ev2, r))))"

text \<open>The text labels among the events of a trace.\<close>

fun labels_of :: "event list \<Rightarrow> label list" where
  "labels_of [] = []"
| "labels_of (AxText l # evs) = l # labels_of evs"
| "labels_of (_ # evs) = labels_of evs"

section \<open>Facts about the builtins and the parser\<close>

lemma bind_Inl [simp]: "bind (Inl e) f = Inl e"
  by (simp add: bind_def)

lemma bind_Inr [simp]: "bind (Inr x) f = f x"
  by (simp add: bind_def)

lemma split_on_not_Nil: "split_on sep s \<noteq> []"
  by (induction s) (auto split: list.splits)

lemma split_on_no_sep: "t \<in> set (split_on sep s) \<Longrightarrow> sep \<notin> set t"
proof (induction s arbitrary: t)
  case Nil
  then show ?case by simp
next
  case (Cons c cs)
  show ?case
  proof (cases "c = sep")
    case True
    with Cons show ?thesis by auto
  next
    case False
    obtain u us where us: "split_on sep cs = u # us"
      using split_on_not_Nil [of sep cs] by (cases "split_on sep cs") auto
    with False Cons.prems have "t = c # u \<or> t \<in> set us" by auto
    with False us Cons.IH show ?thesis by auto
  qed
qed

lemma split_on_length: "length (split_on sep s) = Suc (count_list s sep)"
proof (induction s)
  case Nil
  then show ?case by simp
next
  case (Cons c cs)
  then show ?case by (cases "split_on sep cs") auto
qed

lemma split_on_concat: "concat (map ((#) sep) (split_on sep s)) = sep # s"
proof (induction s)
  case Nil
  then show ?case by simp
next
  case (Cons c cs)
  then show ?case by (cases "split_on sep cs") auto
qed

lemma split_on_whole: "sep \<notin> set s \<Longrightarrow> split_on sep s = [s]"
  by (induction s) auto

lemma query_tokens_not_Nil: "query_tokens q \<noteq> []"
  by (simp add: query_tokens_def split_on_not_Nil)

lemma check_mav_bad: "v \<in> set vs \<Longrightarrow> py_int v = None \<Longrightarrow> check_mav vs = Inl (TypeError mav_msg)"
  by (induction vs) (auto split: option.splits)

lemma int_tuple_ok: "map py_int vs = map Some ms \<Longrightarrow> int_tuple vs = Inr ms"
  by (induction vs arbitrary: ms) auto

lemma check_mav_cases: "check_mav vs = Inr () \<or> check_mav vs = Inl (TypeError mav_msg)"
  by (induction vs) (auto split: option.splits)

lemma check_mav_Inr: "check_mav vs = Inr u \<Longrightarrow> \<exists>ms. map py_int vs = map Some ms"
proof (induction vs)
  case Nil
  then show ?case by simp
next
  case (Cons v vs)
  then obtain n where n: "py_int v = Some n" and "check_mav vs = Inr u"
    by (auto split: option.splits)
  with Cons.IH obtain ms where "map py_int vs = map Some ms" by blast
  with n have "map py_int (v # vs) = map Some (n # ms)" by simp
  then show ?case by blast
qed


lemma int_tuple_Inr: "int_tuple vs = Inr ms \<Longrightarrow> map py_int vs = map Some ms"
proof (induction vs arbitrary: ms)
  case Nil
  then show ?case by simp
next
  case (Cons v vs)
  then obtain n ns where "py_int v = Some n" and "int_tuple vs = Inr ns" and "ms = n # ns"
    by (auto simp: bind_def split: option.splits sum.splits)
  with Cons.IH show ?case by simp
qed

lemma parse_query_Inr_D:
  assumes "parse_query q = Inr r"
  shows "4 < length (query_tokens q) \<and> query_tokens q ! 0 = ''&stock'' \<and>
         query_tokens q ! 2 \<in> set valid_ranges \<and> query_tokens q ! 3 \<in> set valid_intervals \<and>
         query_tokens q ! 4 \<in> set valid_types \<and>
         map py_int (drop 5 (query_tokens q)) = map Some (mav r) \<and>
         r = \<lparr>ticker = upper (query_tokens q ! 1), range_tok = query_tokens q ! 2,
              interval = query_tokens q ! 3, type_tok = query_tokens q ! 4, mav = mav r\<rparr>"
  using assms
  by (auto simp: parse_query_def getitem_def Let_def bind_def
      split: if_splits sum.splits dest: int_tuple_Inr)

lemma parse_query_valid_prefix:
  assumes "t = query_tokens q" and "4 < length t" and "t ! 0 = ''&stock''"
    and "t ! 2 \<in> set valid_ranges" and "t ! 3 \<in> set valid_intervals"
    and "t ! 4 \<in> set valid_types"
  shows "parse_query q =
           bind (check_mav (drop 5 t)) (\<lambda>_.
           bind (int_tuple (drop 5 t)) (\<lambda>ms.
           Inr \<lparr>ticker = upper (t ! 1), range_tok = t ! 2, interval = t ! 3, type_tok = t ! 4,
                mav = ms\<rparr>))"
  using assms by (simp add: parse_query_def getitem_def Let_def query_tokens_not_Nil)

lemma parse_query_usage:
  "query_tokens q ! 0 \<noteq> ''&stock'' \<Longrightarrow> parse_query q = Inl (TypeError usage)"
  using query_tokens_not_Nil [of q] by (simp add: parse_query_def getitem_def Let_def)

lemma parse_query_ranges:
  assumes "t = query_tokens q" and "t ! 0 = ''&stock''" and "2 < length t"
    and "t ! 2 \<notin> set valid_ranges"
  shows "parse_query q = Inl (TypeError ranges_msg)"
  using assms by (simp add: parse_query_def getitem_def Let_def query_tokens_not_Nil)

lemma parse_query_intervals:
  assumes "t = query_tokens q" and "t ! 0 = ''&stock''" and "3 < length t"
    and "t ! 2 \<in> set valid_ranges" and "t ! 3 \<notin> set valid_intervals"
  shows "parse_query q = Inl (TypeError intervals_msg)"
  using assms by (simp add: parse_query_def getitem_def Let_def query_tokens_not_Nil)

lemma parse_query_types:
  assumes "t = query_tokens q" and "t ! 0 = ''&stock''" and "4 < length t"
    and "t ! 2 \<in> set valid_ranges" and "t ! 3 \<in> set valid_intervals"
    and "t ! 4 \<notin> set valid_types"
  shows "parse_query q = Inl (TypeError types_msg)"
  using assms by (simp add: parse_query_def getitem_def Let_def query_tokens_not_Nil)

lemma parse_query_mav:
  assumes "t = query_tokens q" and "t ! 0 = ''&stock''" and "4 < length t"
    and "t ! 2 \<in> set valid_ranges" and "t ! 3 \<in> set valid_intervals"
    and "t ! 4 \<in> set valid_types" and "v \<in> set (drop 5 t)" and "py_int v = None"
  shows "parse_query q = Inl (TypeError mav_msg)"
  using assms check_mav_bad [of v "drop 5 t"] by (simp add: parse_query_valid_prefix)

lemma messages_distinct: "distinct [usage, ranges_msg, intervals_msg, types_msg, mav_msg]"
  by code_simp

lemma lower_letter_code:
  "d \<in> set ''abcdefghijklmnopqrstuvwxyz'' \<Longrightarrow> 97 \<le> (of_char d :: nat) \<and> (of_char d :: nat) \<le> 122"
  by auto

lemma upper_char_code:
  "\<not> (97 \<le> (of_char (upper_char c) :: nat) \<and> (of_char (upper_char c) :: nat) \<le> 122)"
  by (auto simp: upper_char_def Let_def)

lemma upper_char_not_lower: "upper_char c \<notin> set ''abcdefghijklmnopqrstuvwxyz''"
  using lower_letter_code [of "upper_char c"] upper_char_code [of c] by blast

lemma upper_no_lower: "c \<in> set (upper s) \<Longrightarrow> c \<notin> set ''abcdefghijklmnopqrstuvwxyz''"
  using upper_char_not_lower by (auto simp: upper_def simp del: list.set)

lemma check_mav_parsed: "map py_int vs = map Some ms \<Longrightarrow> check_mav vs = Inr ()"
  by (induction vs arbitrary: ms) auto

lemma parse_query_five_tokens:
  assumes "4 < length (query_tokens q)"
  shows "(\<exists>r. parse_query q = Inr r) \<or> (\<exists>m. parse_query q = Inl (TypeError m))"
proof -
  let ?t = "query_tokens q"
  consider
      (sentinel) "?t ! 0 \<noteq> ''&stock''"
    | (ranges) "?t ! 0 = ''&stock''" and "?t ! 2 \<notin> set valid_ranges"
    | (intervals) "?t ! 0 = ''&stock''" and "?t ! 2 \<in> set valid_ranges"
        and "?t ! 3 \<notin> set valid_intervals"
    | (types) "?t ! 0 = ''&stock''" and "?t ! 2 \<in> set valid_ranges"
        and "?t ! 3 \<in> set valid_intervals" and "?t ! 4 \<notin> set valid_types"
    | (valid) "?t ! 0 = ''&stock''" and "?t ! 2 \<in> set valid_ranges"
        and "?t ! 3 \<in> set valid_intervals" and "?t ! 4 \<in> set valid_types"
    by blast
  then show ?thesis
  proof cases
    case sentinel
    then show ?thesis by (simp add: parse_query_usage)
  next
    case ranges
    with assms show ?thesis by (simp add: parse_query_ranges [OF refl])
  next
    case intervals
    with assms show ?thesis by (simp add: parse_query_intervals [OF refl])
  next
    case types
    with assms show ?thesis by (simp add: parse_query_types [OF refl])
  next
    case valid
    note eq = parse_query_valid_prefix [OF refl assms valid]
    show ?thesis
    proof (cases "check_mav (drop 5 ?t)")
      case (Inl e)
      with check_mav_cases [of "drop 5 ?t"] have "e = TypeError mav_msg" by simp
      with Inl eq show ?thesis by simp
    next
      case (Inr u)
      then obtain ms where "map py_int (drop 5 ?t) = map Some ms"
        using check_mav_Inr by blast
      then have "int_tuple (drop 5 ?t) = Inr ms" by (rule int_tuple_ok)
      with Inr eq show ?thesis by simp
    qed
  qed
qed

section \<open>Facts about the renderer\<close>

lemma labels_of_append: "labels_of (xs @ ys) = labels_of xs @ labels_of ys"
  by (induction xs rule: labels_of.induct) auto

lemma labels_of_AxText: "labels_of (map AxText ls) = ls"
  by (induction ls) auto

lemma label_loop_line:
  assumes "type_tok tks = ''line''" and "length lines = Suc (length (mav tks))"
    and "\<forall>i < length (mav tks). lines ! i \<noteq> []"
    and "\<forall>i \<in> set idxs. i \<le> length (mav tks)"
  shows "label_loop fmt tks lines idxs =
           (map (\<lambda>i. \<lparr>label_row = i,
                       label_text = ''MA'' @ str_int (mav tks ! i) @ '': '' @ fmt (last (lines ! i)),
                       label_color = mavcolors ! (i mod length mavcolors)\<rparr>)
              (filter (\<lambda>i. i \<noteq> length (mav tks)) idxs), Inr ())"
  using assms(4)
proof (induction idxs)
  case Nil
  then show ?case by simp
next
  case (Cons i idxs)
  then have IH: "label_loop fmt tks lines idxs =
           (map (\<lambda>i. \<lparr>label_row = i,
                       label_text = ''MA'' @ str_int (mav tks ! i) @ '': '' @ fmt (last (lines ! i)),
                       label_color = mavcolors ! (i mod length mavcolors)\<rparr>)
              (filter (\<lambda>i. i \<noteq> length (mav tks)) idxs), Inr ())"
    by simp
  show ?case
  proof (cases "i = length (mav tks)")
    case True
    with assms(1,2) IH show ?thesis by simp
  next
    case False
    with Cons.prems have lt: "i < length (mav tks)" by simp
    with assms(3) have ne: "lines ! i \<noteq> []" by simp
    from lt assms(2) have "i < length lines" and "i \<noteq> length lines - 1" by simp_all
    with lt ne False IH show ?thesis
      by (simp add: getitem_def last_item_def)
  qed
qed

lemma ma_labels_line_chart:
  assumes "type_tok tks = ''line''" and "mav tks \<noteq> []"
    and "length lines = Suc (length (mav tks))"
    and "\<forall>i < length (mav tks). lines ! i \<noteq> []"
    and "ls = map (\<lambda>i. \<lparr>label_row = i,
                       label_text = ''MA'' @ str_int (mav tks ! i) @ '': '' @ fmt (last (lines ! i)),
                       label_color = mavcolors ! (i mod length mavcolors)\<rparr>)
                 [0..<length (mav tks)]"
  shows "ma_labels fmt tks lines = (ls, Inr ()) \<and> length ls = length (mav tks) \<and>
         length mavcolors = 5 \<and>
         (plot w data (type_tok tks) (mav tks) = Inr lines \<and> fmt = fmt2f w \<longrightarrow>
            labels_of (fst (create_chart w data tks)) = ls \<and>
            snd (create_chart w data tks) = Inr ())"
proof -
  have "\<forall>i \<in> set [0..<length lines]. i \<le> length (mav tks)"
    using assms(3) by auto
  then have "label_loop fmt tks lines [0..<length lines] =
           (map (\<lambda>i. \<lparr>label_row = i,
                       label_text = ''MA'' @ str_int (mav tks ! i) @ '': '' @ fmt (last (lines ! i)),
                       label_color = mavcolors ! (i mod length mavcolors)\<rparr>)
              (filter (\<lambda>i. i \<noteq> length (mav tks)) [0..<length lines]), Inr ())"
    by (rule label_loop_line [OF assms(1) assms(3) assms(4)])
  moreover have "filter (\<lambda>i. i \<noteq> length (mav tks)) [0..<length lines] = [0..<length (mav tks)]"
    using assms(3) by (simp add: filter_id_conv)
  ultimately have m: "ma_labels fmt tks lines = (ls, Inr ())"
    using assms(2) assms(5) by (simp add: ma_labels_def)
  have l: "length ls = length (mav tks)"
    using assms(5) by simp
  have c: "length mavcolors = 5"
    by (simp add: mavcolors_def)
  have "labels_of (fst (create_chart w data tks)) = ls \<and> snd (create_chart w data tks) = Inr ()"
    if "plot w data (type_tok tks) (mav tks) = Inr lines" and "fmt = fmt2f w"
    using that m by (simp add: create_chart_def labels_of_append labels_of_AxText)
  with m l c show ?thesis by blast
qed

lemma ma_labels_price_first:
  assumes "type_tok tks = ''line''" and "mav tks \<noteq> []"
    and "length mas = length (mav tks)" and "price \<noteq> []"
    and "\<forall>i < length mas. mas ! i \<noteq> []"
  shows "\<exists>ls. ma_labels fmt tks (price # mas) = (ls, Inr ()) \<and>
              length ls = length (mav tks) \<and>
              label_text (ls ! 0) = ''MA'' @ str_int (mav tks ! 0) @ '': '' @ fmt (last price) \<and>
              (\<forall>i. Suc i < length (mav tks) \<longrightarrow>
                 label_text (ls ! Suc i) =
                   ''MA'' @ str_int (mav tks ! Suc i) @ '': '' @ fmt (last (mas ! i)))"
proof -
  let ?lines = "price # mas"
  let ?ls = "map (\<lambda>i. \<lparr>label_row = i,
                       label_text = ''MA'' @ str_int (mav tks ! i) @ '': '' @ fmt (last (?lines ! i)),
                       label_color = mavcolors ! (i mod length mavcolors)\<rparr>)
                 [0..<length (mav tks)]"
  have len: "length ?lines = Suc (length (mav tks))"
    using assms(3) by simp
  have ne: "\<forall>i < length (mav tks). ?lines ! i \<noteq> []"
  proof (intro allI impI)
    fix i assume "i < length (mav tks)"
    with assms(3-5) show "?lines ! i \<noteq> []" by (cases i) auto
  qed
  have m: "ma_labels fmt tks ?lines = (?ls, Inr ())"
    by (rule ma_labels_line_chart [OF assms(1) assms(2) len ne refl, THEN conjunct1])
  have pos: "0 < length (mav tks)"
    using assms(2) by simp
  have "label_text (?ls ! 0) = ''MA'' @ str_int (mav tks ! 0) @ '': '' @ fmt (last price)"
    using pos by simp
  moreover have "\<forall>i. Suc i < length (mav tks) \<longrightarrow>
                 label_text (?ls ! Suc i) =
                   ''MA'' @ str_int (mav tks ! Suc i) @ '': '' @ fmt (last (mas ! i))"
    by simp
  ultimately show ?thesis using m by (intro exI [of _ ?ls]) simp
qed

section \<open>The claims\<close>

text \<open>
  C1. Parsing the command \<^verbatim>\<open>&stock spy 2y 1wk candle 5 10 20\<close> succeeds: the ticker is
  the upper-cased \<^verbatim>\<open>SPY\<close>, the range \<^verbatim>\<open>2y\<close>, the interval \<^verbatim>\<open>1wk\<close> and the type
  \<^verbatim>\<open>candle\<close> are the tokens as written, and the moving averages are 5, 10, 20 in that
  order.
\<close>

theorem parse_query_example:
  "parse_query ''&stock spy 2y 1wk candle 5 10 20'' =
     Inr \<lparr>ticker = ''SPY'', range_tok = ''2y'', interval = ''1wk'', type_tok = ''candle'',
          mav = [5, 10, 20]\<rparr>"
  by code_simp

text \<open>
  C2. The checks run in the order sentinel, range, interval, type, moving averages, and
  the first one that fails decides the error: each line below assumes only that the
  earlier checks pass and that the token of the failing check is there, and nothing
  about the later tokens. In particular a command with the sentinel and a range token
  outside the list fails with the valid-ranges message whatever its interval and type
  tokens are. The five messages differ from each other, so the message tells which
  check failed.
\<close>

theorem parse_query_check_order:
  assumes "t = query_tokens q"
  shows "(t ! 0 \<noteq> ''&stock'' \<longrightarrow> parse_query q = Inl (TypeError usage)) \<and>
         (t ! 0 = ''&stock'' \<and> 2 < length t \<and> t ! 2 \<notin> set valid_ranges \<longrightarrow>
            parse_query q = Inl (TypeError ranges_msg)) \<and>
         (t ! 0 = ''&stock'' \<and> 3 < length t \<and> t ! 2 \<in> set valid_ranges \<and>
          t ! 3 \<notin> set valid_intervals \<longrightarrow>
            parse_query q = Inl (TypeError intervals_msg)) \<and>
         (t ! 0 = ''&stock'' \<and> 4 < length t \<and> t ! 2 \<in> set valid_ranges \<and>
          t ! 3 \<in> set valid_intervals \<and> t ! 4 \<notin> set valid_types \<longrightarrow>
            parse_query q = Inl (TypeError types_msg)) \<and>
         (t ! 0 = ''&stock'' \<and> 4 < length t \<and> t ! 2 \<in> set valid_ranges \<and>
          t ! 3 \<in> set valid_intervals \<and> t ! 4 \<in> set valid_types \<and>
          (\<exists>v \<in> set (drop 5 t). py_int v = None) \<longrightarrow>
            parse_query q = Inl (TypeError mav_msg)) \<and>
         distinct [usage, ranges_msg, intervals_msg, types_msg, mav_msg]"
proof (intro conjI impI)
  assume "t ! 0 \<noteq> ''&stock''"
  with assms show "parse_query q = Inl (TypeError usage)"
    by (simp add: parse_query_usage)
next
  assume "t ! 0 = ''&stock'' \<and> 2 < length t \<and> t ! 2 \<notin> set valid_ranges"
  with assms show "parse_query q = Inl (TypeError ranges_msg)"
    by (simp add: parse_query_ranges)
next
  assume "t ! 0 = ''&stock'' \<and> 3 < length t \<and> t ! 2 \<in> set valid_ranges \<and>
          t ! 3 \<notin> set valid_intervals"
  with assms show "parse_query q = Inl (TypeError intervals_msg)"
    by (simp add: parse_query_intervals)
next
  assume "t ! 0 = ''&stock'' \<and> 4 < length t \<and> t ! 2 \<in> set valid_ranges \<and>
          t ! 3 \<in> set valid_intervals \<and> t ! 4 \<notin> set valid_types"
  with assms show "parse_query q = Inl (TypeError types_msg)"
    by (simp add: parse_query_types)
next
  assume a: "t ! 0 = ''&stock'' \<and> 4 < length t \<and> t ! 2 \<in> set valid_ranges \<and>
          t ! 3 \<in> set valid_intervals \<and> t ! 4 \<in> set valid_types \<and>
          (\<exists>v \<in> set (drop 5 t). py_int v = None)"
  then obtain v where "v \<in> set (drop 5 t)" and "py_int v = None" by blast
  with assms a show "parse_query q = Inl (TypeError mav_msg)"
    using parse_query_mav [of t q v] by simp
next
  show "distinct [usage, ranges_msg, intervals_msg, types_msg, mav_msg]"
    by (rule messages_distinct)
qed

theorem parse_query_check_order_witness:
  "parse_query ''stock AAPL 5x 9d pie x'' = Inl (TypeError usage) \<and>
   parse_query ''&stock AAPL 5x 9d pie x'' = Inl (TypeError ranges_msg) \<and>
   parse_query ''&stock AAPL 5x'' = Inl (TypeError ranges_msg) \<and>
   parse_query ''&stock AAPL 1y 9d pie x'' = Inl (TypeError intervals_msg) \<and>
   parse_query ''&stock AAPL 1y 1d pie x'' = Inl (TypeError types_msg) \<and>
   parse_query ''&stock AAPL 1y 1d line x'' = Inl (TypeError mav_msg)"
proof -
  have h1: "query_tokens ''stock AAPL 5x 9d pie x'' ! 0 \<noteq> ''&stock''"
    by code_simp
  have h2: "query_tokens ''&stock AAPL 5x 9d pie x'' ! 0 = ''&stock'' \<and>
            2 < length (query_tokens ''&stock AAPL 5x 9d pie x'') \<and>
            query_tokens ''&stock AAPL 5x 9d pie x'' ! 2 \<notin> set valid_ranges"
    by code_simp
  have h2': "query_tokens ''&stock AAPL 5x'' ! 0 = ''&stock'' \<and>
            2 < length (query_tokens ''&stock AAPL 5x'') \<and>
            query_tokens ''&stock AAPL 5x'' ! 2 \<notin> set valid_ranges"
    by code_simp
  have h3: "query_tokens ''&stock AAPL 1y 9d pie x'' ! 0 = ''&stock'' \<and>
            3 < length (query_tokens ''&stock AAPL 1y 9d pie x'') \<and>
            query_tokens ''&stock AAPL 1y 9d pie x'' ! 2 \<in> set valid_ranges \<and>
            query_tokens ''&stock AAPL 1y 9d pie x'' ! 3 \<notin> set valid_intervals"
    by code_simp
  have h4: "query_tokens ''&stock AAPL 1y 1d pie x'' ! 0 = ''&stock'' \<and>
            4 < length (query_tokens ''&stock AAPL 1y 1d pie x'') \<and>
            query_tokens ''&stock AAPL 1y 1d pie x'' ! 2 \<in> set valid_ranges \<and>
            query_tokens ''&stock AAPL 1y 1d pie x'' ! 3 \<in> set valid_intervals \<and>
            query_tokens ''&stock AAPL 1y 1d pie x'' ! 4 \<notin> set valid_types"
    by code_simp
  have h5: "query_tokens ''&stock AAPL 1y 1d line x'' ! 0 = ''&stock'' \<and>
            4 < length (query_tokens ''&stock AAPL 1y 1d line x'') \<and>
            query_tokens ''&stock AAPL 1y 1d line x'' ! 2 \<in> set valid_ranges \<and>
            query_tokens ''&stock AAPL 1y 1d line x'' ! 3 \<in> set valid_intervals \<and>
            query_tokens ''&stock AAPL 1y 1d line x'' ! 4 \<in> set valid_types \<and>
            (\<exists>v \<in> set (drop 5 (query_tokens ''&stock AAPL 1y 1d line x'')). py_int v = None)"
    by code_simp
  note r1 = parse_query_check_order [OF refl, of "''stock AAPL 5x 9d pie x''",
      THEN conjunct1, THEN mp, OF h1]
  note r2 = parse_query_check_order [OF refl, of "''&stock AAPL 5x 9d pie x''",
      THEN conjunct2, THEN conjunct1, THEN mp, OF h2]
  note r2' = parse_query_check_order [OF refl, of "''&stock AAPL 5x''",
      THEN conjunct2, THEN conjunct1, THEN mp, OF h2']
  note r3 = parse_query_check_order [OF refl, of "''&stock AAPL 1y 9d pie x''",
      THEN conjunct2, THEN conjunct2, THEN conjunct1, THEN mp, OF h3]
  note r4 = parse_query_check_order [OF refl, of "''&stock AAPL 1y 1d pie x''",
      THEN conjunct2, THEN conjunct2, THEN conjunct2, THEN conjunct1, THEN mp, OF h4]
  note r5 = parse_query_check_order [OF refl, of "''&stock AAPL 1y 1d line x''",
      THEN conjunct2, THEN conjunct2, THEN conjunct2, THEN conjunct2, THEN conjunct1,
      THEN mp, OF h5]
  show ?thesis
    by (intro conjI) (rule r1 r2 r2' r3 r4 r5)+
qed

text \<open>
  C3. The claim is that every command string gives a request or the parser's own
  TypeError, also with fewer than five tokens. The code indexes the token list without
  checking its length: a command that has the sentinel and fewer than five tokens
  raises IndexError at the first check whose token is missing.
\<close>

theorem parse_query_short_command:
  "parse_query ''&stock'' = Inl IndexError \<and>
   parse_query ''&stock AAPL'' = Inl IndexError \<and>
   parse_query ''&stock AAPL 1y'' = Inl IndexError \<and>
   parse_query ''&stock AAPL 1y 1d'' = Inl IndexError"
  by code_simp

text \<open>
  C4. When the sentinel, range, interval and type tokens are valid and one of the
  tokens from position 5 on does not parse as an integer, the parser raises the
  invalid-moving-average TypeError and returns no request, whatever the other trailing
  tokens are.
\<close>

theorem parse_query_mav_all_or_nothing:
  assumes "t = query_tokens q" and "4 < length t" and "t ! 0 = ''&stock''"
    and "t ! 2 \<in> set valid_ranges" and "t ! 3 \<in> set valid_intervals"
    and "t ! 4 \<in> set valid_types"
    and "v \<in> set (drop 5 t)" and "py_int v = None"
  shows "parse_query q = Inl (TypeError mav_msg) \<and> (\<forall>r. parse_query q \<noteq> Inr r)"
proof -
  have "parse_query q = Inl (TypeError mav_msg)"
    by (rule parse_query_mav [OF assms(1) assms(3) assms(2) assms(4-8)])
  then show ?thesis by simp
qed

theorem parse_query_mav_all_or_nothing_witness:
  "py_int ''5'' = Some 5 \<and> py_int ''x'' = None \<and> py_int ''20'' = Some 20 \<and>
   parse_query ''&stock AAPL 1y 1d candle 5 x 20'' = Inl (TypeError mav_msg)"
proof -
  have h1: "4 < length (query_tokens ''&stock AAPL 1y 1d candle 5 x 20'')" by code_simp
  have h2: "query_tokens ''&stock AAPL 1y 1d candle 5 x 20'' ! 0 = ''&stock''" by code_simp
  have h3: "query_tokens ''&stock AAPL 1y 1d candle 5 x 20'' ! 2 \<in> set valid_ranges"
    by code_simp
  have h4: "query_tokens ''&stock AAPL 1y 1d candle 5 x 20'' ! 3 \<in> set valid_intervals"
    by code_simp
  have h5: "query_tokens ''&stock AAPL 1y 1d candle 5 x 20'' ! 4 \<in> set valid_types"
    by code_simp
  have h6: "''x'' \<in> set (drop 5 (query_tokens ''&stock AAPL 1y 1d candle 5 x 20''))"
    by code_simp
  have h7: "py_int ''x'' = None" by code_simp
  have h8: "py_int ''5'' = Some 5" by code_simp
  have h9: "py_int ''20'' = Some 20" by code_simp
  note r = parse_query_mav_all_or_nothing [OF refl h1 h2 h3 h4 h5 h6 h7, THEN conjunct1]
  show ?thesis
    by (intro conjI) (rule h7 h8 h9 r)+
qed

text \<open>
  C5. When the sentinel, range, interval and type tokens are valid and the tokens from
  position 5 on parse as the integers \<open>ms\<close>, in that order, parsing succeeds and the
  moving averages are \<open>ms\<close>: nothing is asked of the integers (zero, negative and
  repeated values pass) nor of the ticker token, which is only upper-cased.
\<close>

theorem parse_query_accepts:
  assumes "t = query_tokens q" and "4 < length t" and "t ! 0 = ''&stock''"
    and "t ! 2 \<in> set valid_ranges" and "t ! 3 \<in> set valid_intervals"
    and "t ! 4 \<in> set valid_types"
    and "map py_int (drop 5 t) = map Some ms"
  shows "parse_query q =
           Inr \<lparr>ticker = upper (t ! 1), range_tok = t ! 2, interval = t ! 3, type_tok = t ! 4,
                mav = ms\<rparr>"
proof -
  have "check_mav (drop 5 t) = Inr ()"
    using assms(7) by (rule check_mav_parsed)
  moreover have "int_tuple (drop 5 t) = Inr ms"
    using assms(7) by (rule int_tuple_ok)
  ultimately show ?thesis
    using assms(1-6) by (simp add: parse_query_valid_prefix)
qed

theorem parse_query_accepts_witness:
  "parse_query ''&stock x$ 1y 1d line 0 -3 5 5 +07'' =
     Inr \<lparr>ticker = ''X$'', range_tok = ''1y'', interval = ''1d'', type_tok = ''line'',
          mav = [0, - 3, 5, 5, 7]\<rparr>"
proof -
  have h1: "4 < length (query_tokens ''&stock x$ 1y 1d line 0 -3 5 5 +07'')" by code_simp
  have h2: "query_tokens ''&stock x$ 1y 1d line 0 -3 5 5 +07'' ! 0 = ''&stock''" by code_simp
  have h3: "query_tokens ''&stock x$ 1y 1d line 0 -3 5 5 +07'' ! 2 \<in> set valid_ranges"
    by code_simp
  have h4: "query_tokens ''&stock x$ 1y 1d line 0 -3 5 5 +07'' ! 3 \<in> set valid_intervals"
    by code_simp
  have h5: "query_tokens ''&stock x$ 1y 1d line 0 -3 5 5 +07'' ! 4 \<in> set valid_types"
    by code_simp
  have h6: "map py_int (drop 5 (query_tokens ''&stock x$ 1y 1d line 0 -3 5 5 +07'')) =
              map Some [0, - 3, 5, 5, 7]"
    by code_simp
  have e: "Inr \<lparr>ticker = upper (query_tokens ''&stock x$ 1y 1d line 0 -3 5 5 +07'' ! 1),
                range_tok = query_tokens ''&stock x$ 1y 1d line 0 -3 5 5 +07'' ! 2,
                interval = query_tokens ''&stock x$ 1y 1d line 0 -3 5 5 +07'' ! 3,
                type_tok = query_tokens ''&stock x$ 1y 1d line 0 -3 5 5 +07'' ! 4,
                mav = [0, - 3, 5, 5, 7]\<rparr> =
           (Inr \<lparr>ticker = ''X$'', range_tok = ''1y'', interval = ''1d'', type_tok = ''line'',
                mav = [0, - 3, 5, 5, 7]\<rparr> :: error + tokens)"
    by code_simp
  show ?thesis
    by (rule trans [OF parse_query_accepts [OF refl h1 h2 h3 h4 h5 h6] e])
qed

text \<open>
  C6, as amended. The claim that the ticker of a parsed request is a non-empty string of
  uppercase characters does not hold: the ticker token is not checked, so it may be
  empty or hold characters that are not letters. What holds is that the ticker is the
  upper-cased token 1, which therefore has none of the letters a to z.
\<close>

theorem parse_query_ticker:
  assumes "parse_query q = Inr r"
  shows "1 < length (query_tokens q) \<and> ticker r = upper (query_tokens q ! 1) \<and>
         (\<forall>c \<in> set (ticker r). c \<notin> set ''abcdefghijklmnopqrstuvwxyz'')"
proof -
  from assms have len: "4 < length (query_tokens q)"
    and r: "r = \<lparr>ticker = upper (query_tokens q ! 1), range_tok = query_tokens q ! 2,
              interval = query_tokens q ! 3, type_tok = query_tokens q ! 4, mav = mav r\<rparr>"
    using parse_query_Inr_D [of q r] by blast+
  from r have t: "ticker r = upper (query_tokens q ! 1)"
    by (metis tokens.select_convs(1))
  have "\<forall>c \<in> set (ticker r). c \<notin> set ''abcdefghijklmnopqrstuvwxyz''"
    unfolding t using upper_no_lower by blast
  with len t show ?thesis by simp
qed

theorem parse_query_ticker_witness:
  "parse_query ''&stock brk.b 1y 1d line'' =
     Inr \<lparr>ticker = ''BRK.B'', range_tok = ''1y'', interval = ''1d'', type_tok = ''line'',
          mav = []\<rparr> \<and>
   list_all (\<lambda>c. c \<notin> set ''abcdefghijklmnopqrstuvwxyz'') ''BRK.B''"
proof -
  have h: "parse_query ''&stock brk.b 1y 1d line'' =
     Inr \<lparr>ticker = ''BRK.B'', range_tok = ''1y'', interval = ''1d'', type_tok = ''line'',
          mav = []\<rparr>"
    by code_simp
  have "\<forall>c \<in> set (ticker \<lparr>ticker = ''BRK.B'', range_tok = ''1y'', interval = ''1d'',
                    type_tok = ''line'', mav = []\<rparr>).
          c \<notin> set ''abcdefghijklmnopqrstuvwxyz''"
    using parse_query_ticker [OF h] by (elim conjE)
  then have "list_all (\<lambda>c. c \<notin> set ''abcdefghijklmnopqrstuvwxyz'') ''BRK.B''"
    by (simp only: tokens.select_convs list_all_iff)
  with h show ?thesis by (rule conjI)
qed

text \<open>
  The counterexample to C6 as stated: a doubled space after the sentinel gives the empty
  ticker, and the ticker \<^verbatim>\<open>123\<close> has no uppercase character.
\<close>

theorem parse_query_ticker_counterexample:
  "parse_query ''&stock  1y 1d line'' =
     Inr \<lparr>ticker = [], range_tok = ''1y'', interval = ''1d'', type_tok = ''line'', mav = []\<rparr> \<and>
   parse_query ''&stock 123 1y 1d line'' =
     Inr \<lparr>ticker = ''123'', range_tok = ''1y'', interval = ''1d'', type_tok = ''line'',
          mav = []\<rparr>"
  by code_simp

text \<open>
  C7. When the response of the GET has status 404, \<^verbatim>\<open>request_data\<close> raises its own
  exception (the message starts \<^verbatim>\<open>Error 404\<close>) right after the GET: the trace has no
  \<open>ReadCsv\<close>, so the body is not parsed, and the run of the module ends there with no
  event of the renderer. With any other status the body goes to \<^verbatim>\<open>read_csv\<close> and its
  result is the result of \<^verbatim>\<open>request_data\<close>: an exception of the CSV parser reaches
  the caller unchanged and ends the run.
\<close>

theorem request_data_not_found:
  assumes "http_get w (stock_url (ticker tks)) (request_params tks) = Inr resp"
  shows "(status_code resp = 404 \<longrightarrow>
            request_data w tks =
              ([HttpGet (stock_url (ticker tks)) (request_params tks)], Inl error_404) \<and>
            (\<forall>q. parse_query q = Inr tks \<longrightarrow>
               script w q =
                 ([HttpGet (stock_url (ticker tks)) (request_params tks)], Inl error_404))) \<and>
         (status_code resp \<noteq> 404 \<longrightarrow>
            request_data w tks =
              ([HttpGet (stock_url (ticker tks)) (request_params tks), ReadCsv (resp_text resp)],
               read_csv w (resp_text resp)) \<and>
            (\<forall>e. read_csv w (resp_text resp) = Inl e \<longrightarrow>
               snd (request_data w tks) = Inl e \<and>
               (\<forall>q. parse_query q = Inr tks \<longrightarrow>
                  script w q =
                    ([HttpGet (stock_url (ticker tks)) (request_params tks),
                      ReadCsv (resp_text resp)], Inl e))))"
  using assms by (simp add: request_data_def script_def Let_def)

theorem request_data_not_found_witness:
  "script
     \<lparr>http_get = (\<lambda>u p. Inr \<lparr>status_code = 404, resp_text = ''Not Found''\<rparr>),
      read_csv = (\<lambda>s. Inr s), plot = (\<lambda>d t m. Inr []), fmt2f = (\<lambda>y :: nat. [])\<rparr>
     ''&stock SPY 2y 1wk candle 5 10 20'' =
     ([HttpGet ''https://query1.finance.yahoo.com/v7/finance/download/SPY?''
         [(''range'', ''2y''), (''interval'', ''1wk''), (''events'', ''history'')]],
      Inl error_404) \<and>
   script
     \<lparr>http_get = (\<lambda>u p. Inr \<lparr>status_code = 200, resp_text = ''<html>''\<rparr>),
      read_csv = (\<lambda>s. (Inl (LibraryError ''ParserError'') :: error + string)),
      plot = (\<lambda>d t m. Inr []), fmt2f = (\<lambda>y :: nat. [])\<rparr>
     ''&stock SPY 2y 1wk candle 5 10 20'' =
     ([HttpGet ''https://query1.finance.yahoo.com/v7/finance/download/SPY?''
         [(''range'', ''2y''), (''interval'', ''1wk''), (''events'', ''history'')],
       ReadCsv ''<html>''],
      Inl (LibraryError ''ParserError''))"
proof -
  let ?tks = "\<lparr>ticker = ''SPY'', range_tok = ''2y'', interval = ''1wk'', type_tok = ''candle'',
               mav = [5, 10, 20]\<rparr>"
  let ?w1 = "\<lparr>http_get = (\<lambda>u p. Inr \<lparr>status_code = 404, resp_text = ''Not Found''\<rparr>),
      read_csv = (\<lambda>s. Inr s), plot = (\<lambda>d t m. Inr []), fmt2f = (\<lambda>y :: nat. [])\<rparr>
      :: (string, nat) world"
  let ?w2 = "\<lparr>http_get = (\<lambda>u p. Inr \<lparr>status_code = 200, resp_text = ''<html>''\<rparr>),
      read_csv = (\<lambda>s. (Inl (LibraryError ''ParserError'') :: error + string)),
      plot = (\<lambda>d t m. Inr []), fmt2f = (\<lambda>y :: nat. [])\<rparr> :: (string, nat) world"
  have p: "parse_query ''&stock SPY 2y 1wk candle 5 10 20'' = Inr ?tks"
    by code_simp
  have g1: "http_get ?w1 (stock_url (ticker ?tks)) (request_params ?tks) =
              Inr \<lparr>status_code = 404, resp_text = ''Not Found''\<rparr>"
    by simp
  have s1: "status_code \<lparr>status_code = 404, resp_text = ''Not Found''\<rparr> = 404"
    by simp
  have g2: "http_get ?w2 (stock_url (ticker ?tks)) (request_params ?tks) =
              Inr \<lparr>status_code = 200, resp_text = ''<html>''\<rparr>"
    by simp
  have s2: "status_code \<lparr>status_code = 200, resp_text = ''<html>''\<rparr> \<noteq> 404"
    by simp
  have c2: "read_csv ?w2 (resp_text \<lparr>status_code = 200, resp_text = ''<html>''\<rparr>) =
              Inl (LibraryError ''ParserError'')"
    by simp
  have u: "stock_url (ticker ?tks) = ''https://query1.finance.yahoo.com/v7/finance/download/SPY?''"
    by code_simp
  have q: "request_params ?tks =
             [(''range'', ''2y''), (''interval'', ''1wk''), (''events'', ''history'')]"
    by code_simp
  have t: "resp_text \<lparr>status_code = 200, resp_text = ''<html>''\<rparr> = ''<html>''"
    by simp
  note r1 = request_data_not_found [OF g1, THEN conjunct1, THEN mp, OF s1, THEN conjunct2,
      THEN spec, THEN mp, OF p]
  note r2 = request_data_not_found [OF g2, THEN conjunct2, THEN mp, OF s2, THEN conjunct2,
      THEN spec, THEN mp, OF c2, THEN conjunct2, THEN spec, THEN mp, OF p]
  show ?thesis
    using r1 r2 by (simp only: u q t)
qed

text \<open>
  C8. With an empty moving-average sequence the guard \<^verbatim>\<open>if tokens['mav']\<close> is false:
  the label loop is not entered, whatever line objects the plot returned, and the
  chart gets no text label.
\<close>

theorem create_chart_no_mav:
  assumes "mav tks = []"
  shows "ma_labels fmt tks lines = ([], Inr ()) \<and>
         labels_of (fst (create_chart w data tks)) = []"
  using assms by (simp add: ma_labels_def create_chart_def split: sum.splits)

theorem create_chart_no_mav_witness:
  "parse_query ''&stock AAPL 1y 1d line'' =
     Inr \<lparr>ticker = ''AAPL'', range_tok = ''1y'', interval = ''1d'', type_tok = ''line'',
          mav = []\<rparr> \<and>
   ma_labels (\<lambda>y :: nat. ''0.00'')
     \<lparr>ticker = ''AAPL'', range_tok = ''1y'', interval = ''1d'', type_tok = ''line'', mav = []\<rparr>
     [[1, 2, 3]] = ([], Inr ())"
proof -
  have p: "parse_query ''&stock AAPL 1y 1d line'' =
     Inr \<lparr>ticker = ''AAPL'', range_tok = ''1y'', interval = ''1d'', type_tok = ''line'',
          mav = []\<rparr>"
    by code_simp
  have m: "mav \<lparr>ticker = ''AAPL'', range_tok = ''1y'', interval = ''1d'', type_tok = ''line'',
               mav = []\<rparr> = []"
    by simp
  note r = create_chart_no_mav [OF m, THEN conjunct1]
  from p r show ?thesis by (rule conjI)
qed

text \<open>
  C9. The claim is that a line chart with \<open>n\<close> moving averages gets one label per
  window, label \<open>i\<close> showing the latest value of window \<open>i\<close>'s average, and that the
  line left out is the price line. The loop pairs line object \<open>i\<close> with window \<open>i\<close> and
  leaves out the last line object, as its comment says (\<^verbatim>\<open>Ignores the last line if a
  line chart is requested since that is the actual data\<close>). For a line chart the
  plotting library draws the price line first and the averages after it, so
  \<^verbatim>\<open>ax.lines\<close> is the price line followed by one line per window: the first label
  shows the last price under the name of the first window, every later label shows
  the average of the window before its own, and the line of the last window gets no
  label. Below, the closing prices are 100, 101, 103, 106, 110, 115 and the windows are
  2 and 3; each y value is written as its text with two decimals. The latest averages
  are 112.50 and 110.33, and the labels read \<^verbatim>\<open>MA2: 115.00\<close> and \<^verbatim>\<open>MA3: 112.50\<close>.
\<close>

theorem ma_labels_price_line_first:
  "ma_labels (\<lambda>y. y)
     \<lparr>ticker = ''SPY'', range_tok = ''1y'', interval = ''1d'', type_tok = ''line'',
      mav = [2, 3]\<rparr>
     [[''100.00'', ''101.00'', ''103.00'', ''106.00'', ''110.00'', ''115.00''],
      [''nan'', ''100.50'', ''102.00'', ''104.50'', ''108.00'', ''112.50''],
      [''nan'', ''nan'', ''101.33'', ''103.33'', ''106.33'', ''110.33'']] =
     ([\<lparr>label_row = 0, label_text = ''MA2: 115.00'', label_color = ''#5662f6''\<rparr>,
       \<lparr>label_row = 1, label_text = ''MA3: 112.50'', label_color = ''#FFEB00''\<rparr>],
      Inr ())"
  by code_simp

text \<open>
  C10. The tokens are the pieces of the stripped command between single spaces: joined
  again with one space they give the stripped command back, there is one token more
  than there are spaces, no token holds a space, and a stripped command without a space
  is one token whatever other whitespace it holds. So a doubled space gives an empty
  token that takes a position of the grammar (here the ticker's, and the command
  parses), and a tab does not separate tokens (here the sentinel and the ticker stay
  one token, which is not the sentinel).
\<close>

theorem query_tokens_single_space:
  "concat (map ((#) (CHR '' '')) (query_tokens q)) = CHR '' '' # strip q \<and>
   length (query_tokens q) = Suc (count_list (strip q) (CHR '' '')) \<and>
   (\<forall>t \<in> set (query_tokens q). CHR '' '' \<notin> set t) \<and>
   (CHR '' '' \<notin> set (strip q) \<longrightarrow> query_tokens q = [strip q]) \<and>
   query_tokens ''&stock  2y 1wk candle 5'' = [''&stock'', [], ''2y'', ''1wk'', ''candle'', ''5''] \<and>
   parse_query ''&stock  2y 1wk candle 5'' =
     Inr \<lparr>ticker = [], range_tok = ''2y'', interval = ''1wk'', type_tok = ''candle'',
          mav = [5]\<rparr> \<and>
   query_tokens (''&stock'' @ [CHR 0x09] @ ''AAPL 1y 1d line'') =
     [''&stock'' @ [CHR 0x09] @ ''AAPL'', ''1y'', ''1d'', ''line''] \<and>
   parse_query (''&stock'' @ [CHR 0x09] @ ''AAPL 1y 1d line'') = Inl (TypeError usage)"
proof (intro conjI)
  show "concat (map ((#) (CHR '' '')) (query_tokens q)) = CHR '' '' # strip q"
    by (simp only: query_tokens_def split_on_concat)
  show "length (query_tokens q) = Suc (count_list (strip q) (CHR '' ''))"
    by (simp only: query_tokens_def split_on_length)
  show "\<forall>t \<in> set (query_tokens q). CHR '' '' \<notin> set t"
    unfolding query_tokens_def using split_on_no_sep by blast
  show "CHR '' '' \<notin> set (strip q) \<longrightarrow> query_tokens q = [strip q]"
    by (simp add: query_tokens_def split_on_whole)
  show "query_tokens ''&stock  2y 1wk candle 5'' =
          [''&stock'', [], ''2y'', ''1wk'', ''candle'', ''5'']"
    by code_simp
  show "parse_query ''&stock  2y 1wk candle 5'' =
     Inr \<lparr>ticker = [], range_tok = ''2y'', interval = ''1wk'', type_tok = ''candle'',
          mav = [5]\<rparr>"
    by code_simp
  show "query_tokens (''&stock'' @ [CHR 0x09] @ ''AAPL 1y 1d line'') =
     [''&stock'' @ [CHR 0x09] @ ''AAPL'', ''1y'', ''1d'', ''line'']"
    by code_simp
  show "parse_query (''&stock'' @ [CHR 0x09] @ ''AAPL 1y 1d line'') = Inl (TypeError usage)"
    by code_simp
qed

theorem query_tokens_single_space_witness:
  "count_list (strip '' a  b c '') (CHR '' '') = 3 \<and>
   length (query_tokens '' a  b c '') = Suc 3 \<and>
   list_all (\<lambda>t. CHR '' '' \<notin> set t) (query_tokens '' a  b c '')"
proof -
  have h: "count_list (strip '' a  b c '') (CHR '' '') = 3"
    by code_simp
  have l: "length (query_tokens '' a  b c '') = Suc 3"
    using query_tokens_single_space [of "'' a  b c ''", THEN conjunct2, THEN conjunct1]
    by (simp only: h)
  have a: "list_all (\<lambda>t. CHR '' '' \<notin> set t) (query_tokens '' a  b c '')"
    using query_tokens_single_space [of "'' a  b c ''", THEN conjunct2, THEN conjunct2,
        THEN conjunct1]
    by (simp only: list_all_iff)
  from h l a show ?thesis by (intro conjI)
qed

end
